theory Spec2Isabelle
  imports Main
begin

section \<open>Text, lines and the Python string methods used by setup.py\<close>

text \<open>
  Text is modelled after decoding: a \<^typ>\<open>string\<close> is the sequence of characters Python 3
  sees, each \<^typ>\<open>char\<close> standing for a code point below 256.  \<open>isspace\<close> lists the
  characters below 256 for which Python's \<^verbatim>\<open>str.isspace\<close> holds; these are what
  \<^verbatim>\<open>str.strip()\<close> and \<^verbatim>\<open>str.rstrip()\<close> remove when called without argument.
\<close>

definition isspace :: "char \<Rightarrow> bool" where
  "isspace c = (c \<in> set [CHR 0x09, CHR 0x0A, CHR 0x0B, CHR 0x0C, CHR 0x0D,
                           CHR 0x1C, CHR 0x1D, CHR 0x1E, CHR 0x1F, CHR 0x20,
                           CHR 0x85, CHR 0xA0])"

definition lstrip :: "string \<Rightarrow> string" where
  "lstrip s = dropWhile isspace s"

definition rstrip :: "string \<Rightarrow> string" where
  "rstrip s = rev (dropWhile isspace (rev s))"

definition strip :: "string \<Rightarrow> string" where
  "strip s = rstrip (lstrip s)"

text \<open>\<^verbatim>\<open>s.strip(chars)\<close> and \<^verbatim>\<open>s.rstrip(chars)\<close> with an explicit character set.\<close>

definition rstrip_chars :: "string \<Rightarrow> string \<Rightarrow> string" where
  "rstrip_chars chars s = rev (dropWhile (\<lambda>c. c \<in> set chars) (rev s))"

definition strip_chars :: "string \<Rightarrow> string \<Rightarrow> string" where
  "strip_chars chars s = rstrip_chars chars (dropWhile (\<lambda>c. c \<in> set chars) s)"

definition startswith :: "string \<Rightarrow> string \<Rightarrow> bool" where
  "startswith s p = (take (length p) s = p)"

text \<open>\<^verbatim>\<open>sep.join(xs)\<close>.\<close>

fun join :: "string \<Rightarrow> string list \<Rightarrow> string" where
  "join sep [] = []"
| "join sep [x] = x"
| "join sep (x # y # ys) = x @ sep @ join sep (y # ys)"

text \<open>
  \<^verbatim>\<open>s.rsplit(sep, maxsplit)\<close> for a one-character separator: \<open>rpartition\<close> cuts at the
  last separator, \<open>rsplit\<close> repeats this at most \<open>maxsplit\<close> times on the left part.
\<close>

definition rpartition :: "char \<Rightarrow> string \<Rightarrow> (string \<times> string) option" where
  "rpartition sep s =
     (if sep \<in> set s
      then Some (rev (tl (dropWhile (\<lambda>c. c \<noteq> sep) (rev s))),
                 rev (takeWhile (\<lambda>c. c \<noteq> sep) (rev s)))
      else None)"

fun rsplit :: "char \<Rightarrow> nat \<Rightarrow> string \<Rightarrow> string list" where
  "rsplit sep 0 s = [s]"
| "rsplit sep (Suc n) s =
     (case rpartition sep s of
        None \<Rightarrow> [s]
      | Some (a, b) \<Rightarrow> rsplit sep n a @ [b])"

text \<open>
  A file opened in text mode is read with universal newlines: \<open>\r\n\<close> and a lone \<open>\r\<close>
  arrive as \<open>\n\<close>.  Iterating over the file yields the lines with their line ends kept.
\<close>

fun universal_newlines :: "string \<Rightarrow> string" where
  "universal_newlines [] = []"
| "universal_newlines [c] = (if c = CHR 0x0D then [CHR 0x0A] else [c])"
| "universal_newlines (c # d # cs) =
     (if c = CHR 0x0D
      then (if d = CHR 0x0A then CHR 0x0A # universal_newlines cs
            else CHR 0x0A # universal_newlines (d # cs))
      else c # universal_newlines (d # cs))"

fun splitlines :: "string \<Rightarrow> string list" where
  "splitlines [] = []"
| "splitlines (c # cs) =
     (if c = CHR 0x0A then [c] # splitlines cs
      else (case splitlines cs of
              [] \<Rightarrow> [[c]]
            | l # ls \<Rightarrow> (c # l) # ls))"

definition readlines :: "string \<Rightarrow> string list" where
  "readlines content = splitlines (universal_newlines content)"

section \<open>Errors and the file system\<close>

datatype oserror = FileNotFoundError | PermissionError

datatype error =
    OSError oserror
  | IndexError
  | ValueError
  | UnicodeDecodeError
  | RuntimeError string

text \<open>
  The file system as the script sees it: \<open>files\<close> maps a path to the text of the regular
  file there (\<open>None\<close>: no file there can be opened).  \<open>remove_denied\<close> and \<open>write_denied\<close> mark
  the paths at which \<^verbatim>\<open>os.remove\<close> and \<^verbatim>\<open>open(path, 'w')\<close> fail with an \<open>OSError\<close> other
  than a missing file (a directory without write permission, a directory in place of
  the file, a read-only file system).
\<close>

record filesystem =
  files :: "string \<Rightarrow> string option"
  remove_denied :: "string \<Rightarrow> bool"
  write_denied :: "string \<Rightarrow> bool"

definition open_read :: "filesystem \<Rightarrow> string \<Rightarrow> error + string list" where
  "open_read fs path =
     (case files fs path of
        None \<Rightarrow> Inl (OSError FileNotFoundError)
      | Some content \<Rightarrow> Inr (readlines content))"

definition os_remove :: "filesystem \<Rightarrow> string \<Rightarrow> error + filesystem" where
  "os_remove fs path =
     (if remove_denied fs path then Inl (OSError PermissionError)
      else (case files fs path of
              None \<Rightarrow> Inl (OSError FileNotFoundError)
            | Some _ \<Rightarrow> Inr (fs\<lparr>files := (files fs)(path := None)\<rparr>)))"

definition open_write :: "filesystem \<Rightarrow> string \<Rightarrow> string \<Rightarrow> error + filesystem" where
  "open_write fs path content =
     (if write_denied fs path then Inl (OSError PermissionError)
      else Inr (fs\<lparr>files := (files fs)(path \<mapsto> content)\<rparr>))"

text \<open>\<^verbatim>\<open>os.path.join(a, b)\<close> for a relative second component.\<close>

definition path_join :: "string \<Rightarrow> string \<Rightarrow> string" where
  "path_join a b = (if a = [] \<or> last a = CHR ''/'' then a @ b else a @ ''/'' @ b)"

definition README_FILE :: string where
  "README_FILE = ''README''"

definition SAVED_VERSION_FILE :: string where
  "SAVED_VERSION_FILE = ''version''"

section \<open>long_description\<close>

text \<open>
  The loop of \<^verbatim>\<open>long_description\<close> over the remaining lines, with the loop variables
  \<open>skip\<close> and \<open>text\<close> as arguments.  \<^verbatim>\<open>text[-1]\<close> on the empty list raises \<open>IndexError\<close>;
  \<^verbatim>\<open>break\<close> returns the list accumulated so far.
\<close>

fun scan_readme :: "bool \<Rightarrow> string list \<Rightarrow> string list \<Rightarrow> error + string list" where
  "scan_readme skip text [] = Inr text"
| "scan_readme skip text (line # rest) =
     (if line = ''\<newline>'' then
        (if skip then scan_readme False text rest
         else if text = [] then Inl IndexError
         else if last text = ''\<newline>'' then Inr (butlast text)
         else scan_readme skip (if \<not> skip then text @ [line] else text) rest)
      else scan_readme skip (if \<not> skip then text @ [line] else text) rest)"

text \<open>
  The \<^verbatim>\<open>try\<close> block covers opening the file and the loop, and its bare \<^verbatim>\<open>except\<close> turns
  every exception raised there into the result \<^verbatim>\<open>''\<close>.  The last two statements are
  outside the \<^verbatim>\<open>try\<close>: \<^verbatim>\<open>text[-1]\<close> raises \<open>IndexError\<close> when nothing was accumulated.
\<close>

definition long_description :: "filesystem \<Rightarrow> error + string" where
  "long_description fs =
     (case (case open_read fs README_FILE of
              Inl e \<Rightarrow> Inl e
            | Inr lines \<Rightarrow> scan_readme True [] lines) of
        Inl e \<Rightarrow> Inr []
      | Inr text \<Rightarrow>
          (if text = [] then Inl IndexError
           else Inr (concat (text[length text - 1 := rstrip (last text)]))))"

section \<open>The saved version file\<close>

text \<open>
  The module-level loop over the lines of the version file: the line is stripped, a
  stripped line starting with \<open>#\<close> is passed over, any other stripped line is the
  version.  The \<^verbatim>\<open>else\<close> branch of the \<^verbatim>\<open>for\<close> raises when the lines run out.
\<close>

fun scan_version :: "string list \<Rightarrow> error + string" where
  "scan_version [] = Inl (RuntimeError ''Saved version file does not contain version.'')"
| "scan_version (line # rest) =
     (let line = strip line
      in if startswith line ''#'' then scan_version rest else Inr line)"

text \<open>
  Reading the version file at a given path.  The script opens \<open>SAVED_VERSION_FILE\<close>
  relative to the directory it runs in; \<open>read_saved_version\<close> is that read.
\<close>

definition read_version_file :: "filesystem \<Rightarrow> string \<Rightarrow> error + string" where
  "read_version_file fs path =
     (case open_read fs path of
        Inl e \<Rightarrow> Inl e
      | Inr lines \<Rightarrow> scan_version lines)"

definition read_saved_version :: "filesystem \<Rightarrow> error + string" where
  "read_saved_version fs = read_version_file fs SAVED_VERSION_FILE"

section \<open>Subprocesses and get_version_from_git\<close>

text \<open>
  A finished subprocess: its exit status (\<^verbatim>\<open>p.wait()\<close>) and the decoding of what it
  wrote to standard output (\<^verbatim>\<open>p.communicate()[0].decode()\<close>), which raises when the
  bytes are not valid text.  The environment answers \<^verbatim>\<open>subprocess.Popen(argv)\<close> run in
  \<open>distr_root\<close> (\<open>None\<close>: \<open>OSError\<close>, the program cannot be started) and
  \<^verbatim>\<open>os.path.samefile(path, distr_root)\<close>.
\<close>

record process =
  returncode :: int
  stdout :: "error + string"

record environment =
  popen :: "string list \<Rightarrow> process option"
  samefile :: "string \<Rightarrow> error + bool"

text \<open>Every started command is appended to a log, so that the order of the calls shows.\<close>

type_synonym log = "string list list"

definition Popen :: "environment \<Rightarrow> string list \<Rightarrow> log \<Rightarrow> process option \<times> log" where
  "Popen env argv lg = (popen env argv, lg @ [argv])"

text \<open>
  The \<^verbatim>\<open>for opts in [['--first-parent'], []]\<close> loop with its \<^verbatim>\<open>else\<close>: \<open>None\<close> is the
  \<^verbatim>\<open>return\<close> of the function (from the \<open>OSError\<close> handler or from the \<^verbatim>\<open>else\<close> branch),
  \<open>Some p\<close> is the \<^verbatim>\<open>break\<close> with the process that exited with status 0.
\<close>

fun describe_loop :: "environment \<Rightarrow> string list list \<Rightarrow> log \<Rightarrow> process option \<times> log" where
  "describe_loop env [] lg = (None, lg)"
| "describe_loop env (opts # rest) lg =
     (case Popen env ([''git'', ''describe'', ''--long''] @ opts) lg of
        (None, lg') \<Rightarrow> (None, lg')
      | (Some p, lg') \<Rightarrow>
          (if returncode p = 0 then (Some p, lg') else describe_loop env rest lg'))"

definition unpack3 :: "string list \<Rightarrow> error + string \<times> string \<times> string" where
  "unpack3 xs = (case xs of [a, b, c] \<Rightarrow> Inr (a, b, c) | _ \<Rightarrow> Inl ValueError)"

text \<open>
  The function from the assignment of \<open>description\<close> to the end, for the process \<open>p\<close>
  the loop ended with.  The value is the result (\<open>Inl\<close>: an exception leaves the
  function) and the log.
\<close>

definition version_of_describe ::
  "environment \<Rightarrow> process \<Rightarrow> log \<Rightarrow> (error + string option) \<times> log" where
  "version_of_describe env p lg =
     (case stdout p of
        Inl e \<Rightarrow> (Inl e, lg)
      | Inr out \<Rightarrow>
          (let description = rstrip_chars ''\<newline>'' (strip_chars ''v'' out)
           in case unpack3 (rsplit (CHR ''-'') 2 description) of
                Inl e \<Rightarrow> (Inl e, lg)
              | Inr (release, dev, git) \<Rightarrow>
                  (let version = [release];
                       labels = [];
                       version = (if dev \<noteq> ''0'' then version @ [''.dev'' @ dev] else version);
                       labels = (if dev \<noteq> ''0'' then labels @ [git] else labels);
                       (d, lg') = Popen env [''git'', ''diff'', ''--quiet''] lg;
                       labels = (case d of
                                   None \<Rightarrow> labels @ [''confused'']
                                 | Some d \<Rightarrow>
                                     (if returncode d = 1 then labels @ [''dirty'']
                                      else labels));
                       version = (if labels \<noteq> []
                                  then version @ [''+''] @ [join ''.'' labels]
                                  else version)
                   in (Inr (Some (concat version)), lg'))))"

definition get_version_from_git :: "environment \<Rightarrow> (error + string option) \<times> log" where
  "get_version_from_git env =
     (case Popen env [''git'', ''rev-parse'', ''--show-toplevel''] [] of
        (None, lg) \<Rightarrow> (Inr None, lg)
      | (Some p, lg) \<Rightarrow>
          (if returncode p \<noteq> 0 then (Inr None, lg)
           else (case stdout p of
                   Inl e \<Rightarrow> (Inl e, lg)
                 | Inr out \<Rightarrow>
                     (case samefile env (rstrip_chars ''\<newline>'' out) of
                        Inl e \<Rightarrow> (Inl e, lg)
                      | Inr same \<Rightarrow>
                          (if \<not> same then (Inr None, lg)
                           else (case describe_loop env [[''--first-parent''], []] lg of
                                   (None, lg') \<Rightarrow> (Inr None, lg')
                                 | (Some p, lg') \<Rightarrow> version_of_describe env p lg'))))))"

section \<open>The resolved version\<close>

text \<open>
  The module-level code that sets the global \<open>version\<close>: the saved version, or for the
  saved version \<open>__use_git__\<close> the result of \<open>get_version_from_git\<close>, with \<open>unknown\<close> in
  place of \<open>None\<close> and of the empty string.
\<close>

definition resolve_version :: "filesystem \<Rightarrow> environment \<Rightarrow> (error + string) \<times> log" where
  "resolve_version fs env =
     (case read_saved_version fs of
        Inl e \<Rightarrow> (Inl e, [])
      | Inr version \<Rightarrow>
          (let version_is_from_git = (version = ''__use_git__'')
           in if version_is_from_git
              then (case get_version_from_git env of
                      (Inl e, lg) \<Rightarrow> (Inl e, lg)
                    | (Inr None, lg) \<Rightarrow> (Inr ''unknown'', lg)
                    | (Inr (Some version), lg) \<Rightarrow>
                        (Inr (if version = [] then ''unknown'' else version), lg))
              else (Inr version, [])))"

section \<open>our_sdist.make_release_tree\<close>

text \<open>
  The override after the call of the inherited method, which has put the release tree
  under \<open>base_dir\<close>: the file system passed in is the one that call leaves.  The handler
  \<^verbatim>\<open>except OSError: pass\<close> continues with the file system as it is.
\<close>

definition make_release_tree :: "string \<Rightarrow> string \<Rightarrow> filesystem \<Rightarrow> error + filesystem" where
  "make_release_tree version base_dir fs =
     (let fname = path_join base_dir SAVED_VERSION_FILE;
          content = ''# This file has been generated by setup.py.\<newline>''
                      @ version @ ''\<newline>''
      in case os_remove fs fname of
           Inl (OSError e) \<Rightarrow> open_write fs fname content
         | Inl e \<Rightarrow> Inl e
         | Inr fs' \<Rightarrow> open_write fs' fname content)"

section \<open>Commands and example inputs\<close>

abbreviation git_rev_parse :: "string list" where
  "git_rev_parse \<equiv> [''git'', ''rev-parse'', ''--show-toplevel'']"

abbreviation git_describe_first_parent :: "string list" where
  "git_describe_first_parent \<equiv> [''git'', ''describe'', ''--long'', ''--first-parent'']"

abbreviation git_describe :: "string list" where
  "git_describe \<equiv> [''git'', ''describe'', ''--long'']"

abbreviation git_diff :: "string list" where
  "git_diff \<equiv> [''git'', ''diff'', ''--quiet'']"

text \<open>
  Concrete file systems and environments for the examples: a file system holding the
  listed files, with nothing denied, and an environment that answers the listed
  commands (any other command cannot be started) and in which \<open>root\<close> is the only path
  that is the same file as \<open>distr_root\<close>.
\<close>

definition filesystem_of :: "(string \<times> string) list \<Rightarrow> filesystem" where
  "filesystem_of table =
     \<lparr>files = map_of table, remove_denied = (\<lambda>_. False), write_denied = (\<lambda>_. False)\<rparr>"

definition environment_of :: "(string list \<times> process) list \<Rightarrow> string \<Rightarrow> environment" where
  "environment_of table root =
     \<lparr>popen = map_of table, samefile = (\<lambda>path. Inr (path = root))\<rparr>"

definition exited :: "int \<Rightarrow> string \<Rightarrow> process" where
  "exited status out = \<lparr>returncode = status, stdout = Inr out\<rparr>"

section \<open>The marker value as the specification words it\<close>

text \<open>
  The specification's reading of the version file, for comparison with \<open>scan_version\<close>:
  a comment line begins with \<open>#\<close>, a blank line holds only whitespace, and the marker
  value is the first line that is neither; there is none when no such line exists.
\<close>

definition spec_significant :: "string \<Rightarrow> bool" where
  "spec_significant line = (\<not> startswith line ''#'' \<and> strip line \<noteq> [])"

definition spec_marker_value :: "string list \<Rightarrow> string option" where
  "spec_marker_value lines =
     (case filter spec_significant lines of
        [] \<Rightarrow> None
      | line # _ \<Rightarrow> Some (strip line))"

section \<open>Evaluation of the examples\<close>

lemmas example_defs =
  filesystem_of_def environment_of_def exited_def
  read_saved_version_def read_version_file_def open_read_def readlines_def
  SAVED_VERSION_FILE_def README_FILE_def
  strip_def lstrip_def rstrip_def isspace_def startswith_def
  rstrip_chars_def strip_chars_def

section \<open>Lines of a file\<close>

lemma universal_newlines_id: "CHR 0x0D \<notin> set s \<Longrightarrow> universal_newlines s = s"
  by (induction s rule: universal_newlines.induct) auto

lemma splitlines_line:
  "CHR 0x0A \<notin> set l \<Longrightarrow> splitlines (l @ CHR 0x0A # rest) = (l @ ''\<newline>'') # splitlines rest"
  by (induction l) auto

lemma rstrip_snoc_space: "isspace c \<Longrightarrow> rstrip (s @ [c]) = rstrip s"
  by (simp add: rstrip_def)

lemma strip_snoc_newline: "strip (s @ ''\<newline>'') = strip s"
proof (cases "\<forall>c\<in>set s. isspace c")
  case True
  then have a: "dropWhile isspace s = []"
    by simp
  have b: "dropWhile isspace (s @ ''\<newline>'') = []"
    using True by (simp add: isspace_def)
  show ?thesis
    by (simp only: strip_def lstrip_def a b)
next
  case False
  then have "dropWhile isspace (s @ ''\<newline>'') = dropWhile isspace s @ ''\<newline>''"
    by (auto simp: dropWhile_append)
  moreover have "isspace (CHR 0x0A)"
    by (simp add: isspace_def)
  ultimately show ?thesis
    by (simp only: strip_def lstrip_def rstrip_snoc_space)
qed

lemma splitlines_two:
  "CHR 0x0A \<notin> set a \<Longrightarrow> CHR 0x0A \<notin> set b \<Longrightarrow>
   splitlines (a @ CHR 0x0A # b @ [CHR 0x0A]) = [a @ [CHR 0x0A], b @ [CHR 0x0A]]"
  by (simp add: splitlines_line)

lemma readlines_marker:
  assumes "CHR 0x0A \<notin> set v" and "CHR 0x0D \<notin> set v"
  shows "readlines (''# This file has been generated by setup.py.\<newline>'' @ v @ ''\<newline>'')
         = [''# This file has been generated by setup.py.\<newline>'', v @ ''\<newline>'']"
proof -
  let ?c = "''# This file has been generated by setup.py.\<newline>'' @ v @ ''\<newline>''"
  have "universal_newlines ?c = ?c"
    using assms(2) by (intro universal_newlines_id) simp
  then have "readlines ?c = splitlines ?c"
    by (simp only: readlines_def)
  also have "\<dots> = splitlines (''# This file has been generated by setup.py.''
                               @ CHR 0x0A # v @ [CHR 0x0A])"
    by simp
  also have "\<dots> = [''# This file has been generated by setup.py.'' @ [CHR 0x0A],
                   v @ [CHR 0x0A]]"
    using assms(1) by (intro splitlines_two) simp_all
  finally show ?thesis
    by simp
qed

section \<open>The saved version file: what is read\<close>

lemma scan_version_dropWhile:
  "scan_version lines =
     (case dropWhile (\<lambda>line. startswith (strip line) ''#'') lines of
        [] \<Rightarrow> Inl (RuntimeError ''Saved version file does not contain version.'')
      | line # _ \<Rightarrow> Inr (strip line))"
  by (induction lines) (simp_all add: Let_def)

lemma case_list_Inl:
  "(\<exists>e. (case ys of [] \<Rightarrow> Inl a | y # _ \<Rightarrow> Inr (f y)) = Inl e) \<longleftrightarrow> ys = []"
  by (cases ys) auto

text \<open>
  Claim C2, as the code has it.  Each line is stripped of surrounding whitespace.  A
  line whose stripped text begins with \<open>#\<close> is passed over.  The first other line is
  the marker value, stripped; a blank line is such a line, and its value is the empty
  string.  The read fails exactly when the file cannot be opened (\<open>OSError\<close>) or every
  line is a comment (\<open>RuntimeError\<close>).
\<close>

theorem marker_first_line_not_comment:
  "read_saved_version fs =
     (case files fs SAVED_VERSION_FILE of
        None \<Rightarrow> Inl (OSError FileNotFoundError)
      | Some content \<Rightarrow>
          (case dropWhile (\<lambda>line. startswith (strip line) ''#'') (readlines content) of
             [] \<Rightarrow> Inl (RuntimeError ''Saved version file does not contain version.'')
           | line # _ \<Rightarrow> Inr (strip line)))
   \<and> ((\<exists>e. read_saved_version fs = Inl e) \<longleftrightarrow>
        (files fs SAVED_VERSION_FILE = None
         \<or> (\<exists>content. files fs SAVED_VERSION_FILE = Some content
               \<and> list_all (\<lambda>line. startswith (strip line) ''#'') (readlines content))))"
proof -
  have eq: "read_saved_version fs =
     (case files fs SAVED_VERSION_FILE of
        None \<Rightarrow> Inl (OSError FileNotFoundError)
      | Some content \<Rightarrow>
          (case dropWhile (\<lambda>line. startswith (strip line) ''#'') (readlines content) of
             [] \<Rightarrow> Inl (RuntimeError ''Saved version file does not contain version.'')
           | line # _ \<Rightarrow> Inr (strip line)))"
    by (simp add: read_saved_version_def read_version_file_def open_read_def
      scan_version_dropWhile split: option.split)
  have "(\<exists>e. read_saved_version fs = Inl e) \<longleftrightarrow>
        (files fs SAVED_VERSION_FILE = None
         \<or> (\<exists>content. files fs SAVED_VERSION_FILE = Some content
               \<and> list_all (\<lambda>line. startswith (strip line) ''#'') (readlines content)))"
  proof (cases "files fs SAVED_VERSION_FILE")
    case None
    with eq show ?thesis
      by simp
  next
    case (Some content)
    have "(\<exists>e. read_saved_version fs = Inl e) \<longleftrightarrow>
          dropWhile (\<lambda>line. startswith (strip line) ''#'') (readlines content) = []"
      by (simp only: eq Some option.case case_list_Inl)
    also have "\<dots> \<longleftrightarrow> list_all (\<lambda>line. startswith (strip line) ''#'') (readlines content)"
      by (simp add: list_all_iff dropWhile_eq_Nil_conv)
    finally show ?thesis
      using Some by simp
  qed
  with eq show ?thesis
    by blast
qed

theorem marker_first_line_not_comment_witness:
  "read_saved_version (filesystem_of [(''version'', ''  # a comment\<newline>\<newline>1.0\<newline>'')]) = Inr []
   \<and> read_saved_version (filesystem_of [(''version'', ''# a comment\<newline> 1.0 \<newline>2.0\<newline>'')]) = Inr ''1.0''
   \<and> read_saved_version (filesystem_of [(''version'', ''# a comment\<newline>'')])
       = Inl (RuntimeError ''Saved version file does not contain version.'')
   \<and> read_saved_version (filesystem_of []) = Inl (OSError FileNotFoundError)"
  using marker_first_line_not_comment [of "filesystem_of [(''version'', ''  # a comment\<newline>\<newline>1.0\<newline>'')]"]
    marker_first_line_not_comment [of "filesystem_of [(''version'', ''# a comment\<newline> 1.0 \<newline>2.0\<newline>'')]"]
    marker_first_line_not_comment [of "filesystem_of [(''version'', ''# a comment\<newline>'')]"]
    marker_first_line_not_comment [of "filesystem_of []"]
  by (simp add: filesystem_of_def SAVED_VERSION_FILE_def readlines_def strip_def lstrip_def rstrip_def 
      isspace_def startswith_def)

text \<open>
  The claim as written fails on a blank line.  For the file \<open>\n1.0\n\<close> the first line
  that is neither comment nor blank is \<open>1.0\<close>, but the value read is the empty string;
  for the file \<open>\n\<close> there is no such line, and the read still returns the empty string
  instead of failing.
\<close>

theorem marker_blank_line_counterexample:
  "read_saved_version (filesystem_of [(''version'', ''\<newline>1.0\<newline>'')]) = Inr []
   \<and> spec_marker_value (readlines ''\<newline>1.0\<newline>'') = Some ''1.0''
   \<and> read_saved_version (filesystem_of [(''version'', ''\<newline>'')]) = Inr []
   \<and> spec_marker_value (readlines ''\<newline>'') = None"
  by (simp add: spec_marker_value_def spec_significant_def example_defs)

section \<open>The version from a literal marker\<close>

lemma scan_version_after_comments:
  assumes "list_all (\<lambda>l. startswith (strip l) ''#'') comments"
    and "\<not> startswith (strip line) ''#''"
  shows "scan_version (comments @ line # rest) = Inr (strip line)"
  using assms by (induction comments) (simp_all add: Let_def)

lemma read_saved_version_after_comments:
  assumes "files fs SAVED_VERSION_FILE = Some content"
    and "readlines content = comments @ line # rest"
    and "list_all (\<lambda>l. startswith (strip l) ''#'') comments"
    and "\<not> startswith (strip line) ''#''"
  shows "read_saved_version fs = Inr (strip line)"
  using assms
  by (simp add: read_saved_version_def read_version_file_def open_read_def
      scan_version_after_comments)

text \<open>
  Claim C7, as the code has it.  When the lines of the version file are comment lines
  (lines whose stripped text begins with \<open>#\<close>) followed by a line whose stripped text
  is a literal version \<open>X\<close>, not beginning with \<open>#\<close> and other than \<open>__use_git__\<close>, the
  resolved version is exactly \<open>X\<close>, whatever the environment answers: the log of
  started commands is empty, so no \<open>git\<close> command was run.
\<close>

theorem literal_version_unchanged:
  assumes "files fs SAVED_VERSION_FILE = Some content"
    and "readlines content = comments @ line # rest"
    and "list_all (\<lambda>l. startswith (strip l) ''#'') comments"
    and "strip line = X"
    and "\<not> startswith X ''#''"
    and "X \<noteq> ''__use_git__''"
  shows "resolve_version fs env = (Inr X, [])"
proof -
  have "read_saved_version fs = Inr X"
    using read_saved_version_after_comments [OF assms(1,2,3)] assms(4,5) by simp
  with assms(6) show ?thesis
    by (simp add: resolve_version_def)
qed

theorem literal_version_unchanged_witness:
  "resolve_version (filesystem_of [(''version'', ''# pinned\<newline>  # too\<newline>1.2.3 \<newline>0.1\<newline>'')])
     (environment_of [(git_rev_parse, exited 0 ''/src\<newline>''),
                      (git_describe_first_parent, exited 0 ''v9.9-4-gabc1234\<newline>''),
                      (git_diff, exited 1 [])] ''/src'')
   = (Inr ''1.2.3'', [])"
proof -
  let ?c = "''# pinned\<newline>  # too\<newline>1.2.3 \<newline>0.1\<newline>''"
  have f: "files (filesystem_of [(''version'', ?c)]) SAVED_VERSION_FILE = Some ?c"
    by (simp add: example_defs)
  have l: "readlines ?c = [''# pinned\<newline>'', ''  # too\<newline>''] @ ''1.2.3 \<newline>'' # [''0.1\<newline>'']"
    by (simp add: example_defs)
  have c: "list_all (\<lambda>l. startswith (strip l) ''#'') [''# pinned\<newline>'', ''  # too\<newline>'']"
    by (simp add: example_defs)
  have x: "strip ''1.2.3 \<newline>'' = ''1.2.3''" "\<not> startswith ''1.2.3'' ''#''"
    "''1.2.3'' \<noteq> ''__use_git__''"
    by (simp_all add: example_defs)
  from literal_version_unchanged [OF f l c x] show ?thesis
    by simp
qed

text \<open>
  The claim as written fails where a blank line precedes the version.  For the file
  \<open>\n1.2.3\n\<close> the first line that is neither comment nor blank is the literal \<open>1.2.3\<close>,
  but the resolved version is the empty string, taken from the blank line.
\<close>

theorem literal_version_blank_line_counterexample:
  "spec_marker_value (readlines ''\<newline>1.2.3\<newline>'') = Some ''1.2.3''
   \<and> ''1.2.3'' \<noteq> ''__use_git__''
   \<and> resolve_version (filesystem_of [(''version'', ''\<newline>1.2.3\<newline>'')])
         (environment_of [] ''/src'') = (Inr [], [])
   \<and> [] \<noteq> ''1.2.3''"
  by (simp add: resolve_version_def spec_marker_value_def spec_significant_def example_defs)

section \<open>The version from git\<close>

text \<open>
  Claim C6, as the code has it.  When the first line of the version file that is not
  a comment is \<open>__use_git__\<close>, the resolved version is \<open>unknown\<close>, and nothing is raised,
  in each of three cases: \<open>git\<close> cannot be started; \<open>git rev-parse --show-toplevel\<close>
  exits with a status other than 0; or it exits with status 0, its output can be
  decoded, and \<open>os.path.samefile\<close> answers \<open>False\<close> for the directory it prints.  No
  further command is run.
\<close>

theorem unknown_without_repository:
  assumes "files fs SAVED_VERSION_FILE = Some content"
    and "readlines content = comments @ line # rest"
    and "list_all (\<lambda>l. startswith (strip l) ''#'') comments"
    and "strip line = ''__use_git__''"
    and "popen env git_rev_parse = None
       \<or> (\<exists>p. popen env git_rev_parse = Some p \<and>
              (returncode p \<noteq> 0
               \<or> (\<exists>out. stdout p = Inr out \<and>
                     samefile env (rstrip_chars ''\<newline>'' out) = Inr False)))"
  shows "resolve_version fs env = (Inr ''unknown'', [git_rev_parse])"
proof -
  have "\<not> startswith (strip line) ''#''"
    using assms(4) by (simp add: startswith_def)
  then have "read_saved_version fs = Inr ''__use_git__''"
    using read_saved_version_after_comments [OF assms(1,2,3)] assms(4) by simp
  then show ?thesis
    using assms(5)
    by (auto simp: resolve_version_def get_version_from_git_def Popen_def)
qed

theorem unknown_without_repository_witness:
  "resolve_version (filesystem_of [(''version'', ''# marker\<newline>__use_git__\<newline>'')])
     (environment_of [] ''/src'') = (Inr ''unknown'', [git_rev_parse])
   \<and> resolve_version (filesystem_of [(''version'', ''# marker\<newline>__use_git__\<newline>'')])
     (environment_of [(git_rev_parse, exited 128 [])] ''/src'')
       = (Inr ''unknown'', [git_rev_parse])
   \<and> resolve_version (filesystem_of [(''version'', ''# marker\<newline>__use_git__\<newline>'')])
     (environment_of [(git_rev_parse, exited 0 ''/outer\<newline>''),
                      (git_describe_first_parent, exited 0 ''v1.0-0-gabc1234\<newline>''),
                      (git_diff, exited 0 [])] ''/outer/src'')
       = (Inr ''unknown'', [git_rev_parse])"
proof -
  let ?c = "''# marker\<newline>__use_git__\<newline>''"
  let ?fs = "filesystem_of [(''version'', ?c)]"
  have f: "files ?fs SAVED_VERSION_FILE = Some ?c"
    by (simp add: example_defs)
  have l: "readlines ?c = [''# marker\<newline>''] @ ''__use_git__\<newline>'' # []"
    by (simp add: example_defs)
  have c: "list_all (\<lambda>l. startswith (strip l) ''#'') [''# marker\<newline>'']"
    by (simp add: example_defs)
  have x: "strip ''__use_git__\<newline>'' = ''__use_git__''"
    by (simp add: example_defs)
  note m = unknown_without_repository [OF f l c x]
  have a: "popen (environment_of [] ''/src'') git_rev_parse = None"
    by (simp add: example_defs)
  have b: "popen (environment_of [(git_rev_parse, exited 128 [])] ''/src'') git_rev_parse
             = Some (exited 128 [])"
          "returncode (exited 128 []) \<noteq> 0"
    by (simp_all add: example_defs)
  let ?e = "environment_of [(git_rev_parse, exited 0 ''/outer\<newline>''),
                      (git_describe_first_parent, exited 0 ''v1.0-0-gabc1234\<newline>''),
                      (git_diff, exited 0 [])] ''/outer/src''"
  have d: "popen ?e git_rev_parse = Some (exited 0 ''/outer\<newline>'')"
          "stdout (exited 0 ''/outer\<newline>'') = Inr ''/outer\<newline>''"
          "samefile ?e (rstrip_chars ''\<newline>'' ''/outer\<newline>'') = Inr False"
    by (simp_all add: example_defs)
  show ?thesis
    using m [of "environment_of [] ''/src''"]
      m [of "environment_of [(git_rev_parse, exited 128 [])] ''/src''"]
      m [of ?e] a b d
    by blast
qed

text \<open>
  The claim as written fails in its third case, and for a marker after a blank line.
  When \<open>git rev-parse\<close> prints a directory that no longer exists, it is not the same
  directory as \<open>distr_root\<close>, and \<open>os.path.samefile\<close> raises; when its output cannot be
  decoded, \<open>decode\<close> raises.  Neither call is inside a \<open>try\<close>, so the exception leaves
  the module.  For the file \<open>\n__use_git__\n\<close> the first line that is neither comment nor
  blank is \<open>__use_git__\<close>, but with \<open>git\<close> unavailable the resolved version is the empty
  string, not \<open>unknown\<close>.
\<close>

theorem unknown_without_repository_counterexample:
  "resolve_version (filesystem_of [(''version'', ''__use_git__\<newline>'')])
     \<lparr>popen = map_of [(git_rev_parse, exited 0 ''/gone\<newline>'')],
      samefile = (\<lambda>path. Inl (OSError FileNotFoundError))\<rparr>
     = (Inl (OSError FileNotFoundError), [git_rev_parse])
   \<and> resolve_version (filesystem_of [(''version'', ''__use_git__\<newline>'')])
     (environment_of
        [(git_rev_parse, \<lparr>returncode = 0, stdout = Inl UnicodeDecodeError\<rparr>)] ''/src'')
     = (Inl UnicodeDecodeError, [git_rev_parse])
   \<and> spec_marker_value (readlines ''\<newline>__use_git__\<newline>'') = Some ''__use_git__''
   \<and> resolve_version (filesystem_of [(''version'', ''\<newline>__use_git__\<newline>'')])
         (environment_of [] ''/src'') = (Inr [], [])"
  by (simp add: resolve_version_def get_version_from_git_def Popen_def
      spec_marker_value_def spec_significant_def example_defs)

text \<open>
  Claim C9.  Once the top-level directory has been accepted, \<open>git describe --long
  --first-parent\<close> is run first.  If it exits with status 0 its process is the one
  whose output is used, and \<open>git describe --long\<close> is not run.  If it exits with
  another status, \<open>git describe --long\<close> is run once, and when that exits with status 0
  its output is used.  If both exit with a status other than 0 the resolved version is
  \<open>unknown\<close>.
\<close>

theorem describe_first_parent_then_all:
  assumes "popen env git_rev_parse = Some pt"
    and "returncode pt = 0"
    and "stdout pt = Inr out"
    and "samefile env (rstrip_chars ''\<newline>'' out) = Inr True"
    and "popen env git_describe_first_parent = Some p1"
  shows "(returncode p1 = 0 \<longrightarrow>
            get_version_from_git env
              = version_of_describe env p1 [git_rev_parse, git_describe_first_parent])
       \<and> (returncode p1 \<noteq> 0 \<and> popen env git_describe = Some p2 \<and> returncode p2 = 0 \<longrightarrow>
            get_version_from_git env
              = version_of_describe env p2
                  [git_rev_parse, git_describe_first_parent, git_describe])
       \<and> (returncode p1 \<noteq> 0 \<and> popen env git_describe = Some p2 \<and> returncode p2 \<noteq> 0
            \<and> read_saved_version fs = Inr ''__use_git__'' \<longrightarrow>
            resolve_version fs env
              = (Inr ''unknown'', [git_rev_parse, git_describe_first_parent, git_describe]))"
  using assms
  by (simp add: resolve_version_def get_version_from_git_def Popen_def)

theorem describe_first_parent_then_all_witness:
  "get_version_from_git
     (environment_of [(git_rev_parse, exited 0 ''/src\<newline>''),
                      (git_describe_first_parent, exited 0 ''v1.0-0-gabc1234\<newline>''),
                      (git_describe, exited 0 ''v2.0-3-gdef5678\<newline>''),
                      (git_diff, exited 0 [])] ''/src'')
     = (Inr (Some ''1.0''), [git_rev_parse, git_describe_first_parent, git_diff])
   \<and> get_version_from_git
     (environment_of [(git_rev_parse, exited 0 ''/src\<newline>''),
                      (git_describe_first_parent, exited 128 []),
                      (git_describe, exited 0 ''v2.0-3-gdef5678\<newline>''),
                      (git_diff, exited 0 [])] ''/src'')
     = (Inr (Some ''2.0.dev3+gdef5678''),
        [git_rev_parse, git_describe_first_parent, git_describe, git_diff])
   \<and> resolve_version (filesystem_of [(''version'', ''__use_git__\<newline>'')])
     (environment_of [(git_rev_parse, exited 0 ''/src\<newline>''),
                      (git_describe_first_parent, exited 128 []),
                      (git_describe, exited 128 []),
                      (git_diff, exited 0 [])] ''/src'')
     = (Inr ''unknown'', [git_rev_parse, git_describe_first_parent, git_describe])"
proof -
  let ?top = "exited 0 ''/src\<newline>''"
  let ?e1 = "environment_of [(git_rev_parse, ?top),
                      (git_describe_first_parent, exited 0 ''v1.0-0-gabc1234\<newline>''),
                      (git_describe, exited 0 ''v2.0-3-gdef5678\<newline>''),
                      (git_diff, exited 0 [])] ''/src''"
  let ?e2 = "environment_of [(git_rev_parse, ?top),
                      (git_describe_first_parent, exited 128 []),
                      (git_describe, exited 0 ''v2.0-3-gdef5678\<newline>''),
                      (git_diff, exited 0 [])] ''/src''"
  let ?e3 = "environment_of [(git_rev_parse, ?top),
                      (git_describe_first_parent, exited 128 []),
                      (git_describe, exited 128 []),
                      (git_diff, exited 0 [])] ''/src''"
  let ?fs = "filesystem_of [(''version'', ''__use_git__\<newline>'')]"
  have t: "returncode ?top = 0" "stdout ?top = Inr ''/src\<newline>''"
    by (simp_all add: exited_def)
  have m: "read_saved_version ?fs = Inr ''__use_git__''"
    by (simp add: example_defs)
  have 1: "popen ?e1 git_rev_parse = Some ?top"
          "samefile ?e1 (rstrip_chars ''\<newline>'' ''/src\<newline>'') = Inr True"
          "popen ?e1 git_describe_first_parent = Some (exited 0 ''v1.0-0-gabc1234\<newline>'')"
    by (simp_all add: example_defs)
  have 2: "popen ?e2 git_rev_parse = Some ?top"
          "samefile ?e2 (rstrip_chars ''\<newline>'' ''/src\<newline>'') = Inr True"
          "popen ?e2 git_describe_first_parent = Some (exited 128 [])"
          "popen ?e2 git_describe = Some (exited 0 ''v2.0-3-gdef5678\<newline>'')"
    by (simp_all add: example_defs)
  have 3: "popen ?e3 git_rev_parse = Some ?top"
          "samefile ?e3 (rstrip_chars ''\<newline>'' ''/src\<newline>'') = Inr True"
          "popen ?e3 git_describe_first_parent = Some (exited 128 [])"
          "popen ?e3 git_describe = Some (exited 128 [])"
    by (simp_all add: example_defs)
  have v1: "version_of_describe ?e1 (exited 0 ''v1.0-0-gabc1234\<newline>'') lg
            = (Inr (Some ''1.0''), lg @ [git_diff])" for lg
    by (simp add: version_of_describe_def unpack3_def Popen_def rpartition_def
        numeral_2_eq_2 example_defs)
  have v2: "version_of_describe ?e2 (exited 0 ''v2.0-3-gdef5678\<newline>'') lg
            = (Inr (Some ''2.0.dev3+gdef5678''), lg @ [git_diff])" for lg
    by (simp add: version_of_describe_def unpack3_def Popen_def rpartition_def
        numeral_2_eq_2 example_defs)
  have r: "returncode (exited 0 s) = 0" "returncode (exited 128 s) \<noteq> 0" for s
    by (simp_all add: exited_def)
  show ?thesis
    using describe_first_parent_then_all [OF 1(1) t 1(2,3), of "exited 0 ''v2.0-3-gdef5678\<newline>''" ?fs]
      describe_first_parent_then_all [OF 2(1) t 2(2,3), of "exited 0 ''v2.0-3-gdef5678\<newline>''" ?fs]
      describe_first_parent_then_all [OF 3(1) t 3(2,3), of "exited 128 []" ?fs]
      2(4) 3(4) m v1 v2 r
    by simp
qed

lemma version_of_describe_parsed:
  assumes "stdout p = Inr out"
    and "rsplit (CHR ''-'') 2 (rstrip_chars ''\<newline>'' (strip_chars ''v'' out)) = [R, N, C]"
  shows "version_of_describe env p lg
         = (Inr (Some (R @ (if N \<noteq> ''0'' then ''.dev'' @ N else [])
              @ (if (if N \<noteq> ''0'' then [C] else [])
                     @ (case popen env git_diff of
                          None \<Rightarrow> [''confused'']
                        | Some d \<Rightarrow> if returncode d = 1 then [''dirty''] else []) \<noteq> []
                 then ''+'' @ join ''.''
                        ((if N \<noteq> ''0'' then [C] else [])
                         @ (case popen env git_diff of
                              None \<Rightarrow> [''confused'']
                            | Some d \<Rightarrow> if returncode d = 1 then [''dirty''] else []))
                 else []))),
            lg @ [git_diff])"
  using assms
  by (simp add: version_of_describe_def unpack3_def Popen_def split: option.split)

text \<open>
  Claim C1, as the code has it.  When the first line of the version file that is not
  a comment is \<open>__use_git__\<close>, the top-level directory has been accepted, one of the
  two describe commands exits with status 0, and its output, with leading \<open>v\<close> and the
  final newline removed, splits at its last two dashes into release \<open>R\<close>, distance \<open>N\<close>
  and commit id \<open>C\<close>, the function \<open>get_version_from_git\<close> returns \<open>R\<close>, followed by \<open>.dev\<close>
  and \<open>N\<close> exactly when \<open>N\<close> is not \<open>0\<close>, followed by \<open>+\<close> and the labels joined by dots
  exactly when there is a label.  The labels are, in this order: \<open>C\<close> iff \<open>N\<close> is not
  \<open>0\<close>; then \<open>dirty\<close> iff \<open>git diff --quiet\<close> exits with status 1 (\<open>confused\<close> if it cannot
  be started).  The resolved version is that string, except that it is \<open>unknown\<close> when
  the string is empty, which is when \<open>R\<close> is empty, \<open>N\<close> is \<open>0\<close> and there is no label.
  In particular distance \<open>0\<close> with a dirty tree gives \<open>R\<close> followed by \<open>+dirty\<close>.
\<close>

theorem git_version_format:
  assumes "files fs SAVED_VERSION_FILE = Some content"
    and "readlines content = comments @ line # rest"
    and "list_all (\<lambda>l. startswith (strip l) ''#'') comments"
    and "strip line = ''__use_git__''"
    and "popen env git_rev_parse = Some pt"
    and "returncode pt = 0"
    and "stdout pt = Inr root"
    and "samefile env (rstrip_chars ''\<newline>'' root) = Inr True"
    and "(popen env git_describe_first_parent = Some p \<and> returncode p = 0)
       \<or> (\<exists>p1. popen env git_describe_first_parent = Some p1 \<and> returncode p1 \<noteq> 0
              \<and> popen env git_describe = Some p \<and> returncode p = 0)"
    and "stdout p = Inr out"
    and "rsplit (CHR ''-'') 2 (rstrip_chars ''\<newline>'' (strip_chars ''v'' out)) = [R, N, C]"
  shows "(let labels = (if N \<noteq> ''0'' then [C] else [])
                     @ (case popen env git_diff of
                          None \<Rightarrow> [''confused'']
                        | Some d \<Rightarrow> if returncode d = 1 then [''dirty''] else []);
              assembled = R @ (if N \<noteq> ''0'' then ''.dev'' @ N else [])
                            @ (if labels \<noteq> [] then ''+'' @ join ''.'' labels else [])
          in fst (get_version_from_git env) = Inr (Some assembled)
           \<and> fst (resolve_version fs env)
               = Inr (if R = [] \<and> N = ''0'' \<and> labels = [] then ''unknown'' else assembled))
       \<and> (N = ''0'' \<and> (\<exists>d. popen env git_diff = Some d \<and> returncode d = 1) \<longrightarrow>
            fst (resolve_version fs env) = Inr (R @ ''+dirty''))"
proof -
  let ?labels = "(if N \<noteq> ''0'' then [C] else [])
                     @ (case popen env git_diff of
                          None \<Rightarrow> [''confused'']
                        | Some d \<Rightarrow> if returncode d = 1 then [''dirty''] else [])"
  let ?assembled = "R @ (if N \<noteq> ''0'' then ''.dev'' @ N else [])
                      @ (if ?labels \<noteq> [] then ''+'' @ join ''.'' ?labels else [])"
  have "\<not> startswith (strip line) ''#''"
    using assms(4) by (simp add: startswith_def)
  then have marker: "read_saved_version fs = Inr ''__use_git__''"
    using read_saved_version_after_comments [OF assms(1,2,3)] assms(4) by simp
  from assms(9) obtain lg
    where lg: "describe_loop env [[''--first-parent''], []] [git_rev_parse] = (Some p, lg)"
    by (auto simp: Popen_def)
  have "get_version_from_git env = version_of_describe env p lg"
    using lg assms(5-8)
    by (simp add: get_version_from_git_def Popen_def del: describe_loop.simps)
  then have git: "get_version_from_git env = (Inr (Some ?assembled), lg @ [git_diff])"
    unfolding version_of_describe_parsed [OF assms(10,11)] .
  have empty: "?assembled = [] \<longleftrightarrow> R = [] \<and> N = ''0'' \<and> ?labels = []"
    by auto
  have res: "fst (resolve_version fs env)
             = Inr (if R = [] \<and> N = ''0'' \<and> ?labels = [] then ''unknown'' else ?assembled)"
    using marker git empty by (simp add: resolve_version_def)
  have dirty: "fst (resolve_version fs env) = Inr (R @ ''+dirty'')"
    if "N = ''0''" and "popen env git_diff = Some d" and "returncode d = 1" for d
    using res that by simp
  from git res dirty show ?thesis
    by (auto simp: Let_def)
qed

theorem git_version_format_witness:
  "fst (resolve_version (filesystem_of [(''version'', ''# marker\<newline>__use_git__\<newline>'')])
     (environment_of [(git_rev_parse, exited 0 ''/src\<newline>''),
                      (git_describe_first_parent, exited 0 ''v1.0-3-gabc1234\<newline>''),
                      (git_diff, exited 1 [])] ''/src''))
     = Inr ''1.0.dev3+gabc1234.dirty''
   \<and> fst (resolve_version (filesystem_of [(''version'', ''# marker\<newline>__use_git__\<newline>'')])
     (environment_of [(git_rev_parse, exited 0 ''/src\<newline>''),
                      (git_describe_first_parent, exited 0 ''v1.0-0-gabc1234\<newline>''),
                      (git_diff, exited 1 [])] ''/src''))
     = Inr ''1.0+dirty''
   \<and> fst (resolve_version (filesystem_of [(''version'', ''# marker\<newline>__use_git__\<newline>'')])
     (environment_of [(git_rev_parse, exited 0 ''/src\<newline>''),
                      (git_describe_first_parent, exited 128 []),
                      (git_describe, exited 0 ''v1.0-0-gabc1234\<newline>''),
                      (git_diff, exited 0 [])] ''/src''))
     = Inr ''1.0''"
proof -
  let ?c = "''# marker\<newline>__use_git__\<newline>''"
  let ?fs = "filesystem_of [(''version'', ?c)]"
  let ?top = "exited 0 ''/src\<newline>''"
  let ?d3 = "exited 0 ''v1.0-3-gabc1234\<newline>''"
  let ?d0 = "exited 0 ''v1.0-0-gabc1234\<newline>''"
  let ?e1 = "environment_of [(git_rev_parse, ?top), (git_describe_first_parent, ?d3),
                      (git_diff, exited 1 [])] ''/src''"
  let ?e2 = "environment_of [(git_rev_parse, ?top), (git_describe_first_parent, ?d0),
                      (git_diff, exited 1 [])] ''/src''"
  let ?e3 = "environment_of [(git_rev_parse, ?top), (git_describe_first_parent, exited 128 []),
                      (git_describe, ?d0), (git_diff, exited 0 [])] ''/src''"
  have f: "files ?fs SAVED_VERSION_FILE = Some ?c"
    by (simp add: example_defs)
  have l: "readlines ?c = [''# marker\<newline>''] @ ''__use_git__\<newline>'' # []"
    by (simp add: example_defs)
  have c: "list_all (\<lambda>l. startswith (strip l) ''#'') [''# marker\<newline>'']"
    by (simp add: example_defs)
  have x: "strip ''__use_git__\<newline>'' = ''__use_git__''"
    by (simp add: example_defs)
  have t: "returncode ?top = 0" "stdout ?top = Inr ''/src\<newline>''"
    by (simp_all add: exited_def)
  have 1: "popen ?e1 git_rev_parse = Some ?top"
          "samefile ?e1 (rstrip_chars ''\<newline>'' ''/src\<newline>'') = Inr True"
          "(popen ?e1 git_describe_first_parent = Some ?d3 \<and> returncode ?d3 = 0)
            \<or> (\<exists>p1. popen ?e1 git_describe_first_parent = Some p1 \<and> returncode p1 \<noteq> 0
              \<and> popen ?e1 git_describe = Some ?d3 \<and> returncode ?d3 = 0)"
          "stdout ?d3 = Inr ''v1.0-3-gabc1234\<newline>''"
          "rsplit (CHR ''-'') 2 (rstrip_chars ''\<newline>'' (strip_chars ''v'' ''v1.0-3-gabc1234\<newline>''))
             = [''1.0'', ''3'', ''gabc1234'']"
          "popen ?e1 git_diff = Some (exited 1 [])"
    by (simp_all add: example_defs rpartition_def numeral_2_eq_2)
  have 2: "popen ?e2 git_rev_parse = Some ?top"
          "samefile ?e2 (rstrip_chars ''\<newline>'' ''/src\<newline>'') = Inr True"
          "(popen ?e2 git_describe_first_parent = Some ?d0 \<and> returncode ?d0 = 0)
            \<or> (\<exists>p1. popen ?e2 git_describe_first_parent = Some p1 \<and> returncode p1 \<noteq> 0
              \<and> popen ?e2 git_describe = Some ?d0 \<and> returncode ?d0 = 0)"
          "stdout ?d0 = Inr ''v1.0-0-gabc1234\<newline>''"
          "rsplit (CHR ''-'') 2 (rstrip_chars ''\<newline>'' (strip_chars ''v'' ''v1.0-0-gabc1234\<newline>''))
             = [''1.0'', ''0'', ''gabc1234'']"
          "popen ?e2 git_diff = Some (exited 1 [])"
    by (simp_all add: example_defs rpartition_def numeral_2_eq_2)
  have 3: "popen ?e3 git_rev_parse = Some ?top"
          "samefile ?e3 (rstrip_chars ''\<newline>'' ''/src\<newline>'') = Inr True"
          "(popen ?e3 git_describe_first_parent = Some ?d0 \<and> returncode ?d0 = 0)
            \<or> (\<exists>p1. popen ?e3 git_describe_first_parent = Some p1 \<and> returncode p1 \<noteq> 0
              \<and> popen ?e3 git_describe = Some ?d0 \<and> returncode ?d0 = 0)"
          "popen ?e3 git_diff = Some (exited 0 [])"
    by (simp_all add: example_defs)
  have d: "returncode (exited 1 []) = 1" "returncode (exited 0 []) \<noteq> 1"
    by (simp_all add: exited_def)
  show ?thesis
    using git_version_format [OF f l c x 1(1) t 1(2,3,4,5)]
      git_version_format [OF f l c x 2(1) t 2(2,3,4,5)]
      git_version_format [OF f l c x 3(1) t 3(2,3) 2(4,5)]
      1(6) 2(6) 3(4) d
    by (simp add: Let_def)
qed

text \<open>
  The claim as written fails for an empty release.  For a tag named \<open>v\<close>, at distance
  \<open>0\<close> on a clean tree, the describe output \<open>v-0-gabc1234\<close> parses into the empty release
  \<open>R\<close>, \<open>N = 0\<close> and \<open>C = gabc1234\<close>, nothing is appended, and the version resolver returns
  \<open>unknown\<close>, not \<open>R\<close>.
\<close>

theorem git_version_empty_release_counterexample:
  "rsplit (CHR ''-'') 2 (rstrip_chars ''\<newline>'' (strip_chars ''v'' ''v-0-gabc1234\<newline>''))
     = [[], ''0'', ''gabc1234'']
   \<and> resolve_version (filesystem_of [(''version'', ''__use_git__\<newline>'')])
       (environment_of [(git_rev_parse, exited 0 ''/src\<newline>''),
                        (git_describe_first_parent, exited 0 ''v-0-gabc1234\<newline>''),
                        (git_diff, exited 0 [])] ''/src'')
     = (Inr ''unknown'', [git_rev_parse, git_describe_first_parent, git_diff])
   \<and> ''unknown'' \<noteq> []"
  by (simp add: resolve_version_def get_version_from_git_def version_of_describe_def
      unpack3_def Popen_def rpartition_def numeral_2_eq_2 example_defs)

section \<open>long_description\<close>

lemma scan_readme_header:
  "''\<newline>'' \<notin> set header \<Longrightarrow>
   scan_readme True acc (header @ ''\<newline>'' # rest) = scan_readme False acc rest"
  by (induction header) auto

lemma scan_readme_body:
  assumes "successively (\<lambda>a b. \<not> (a = ''\<newline>'' \<and> b = ''\<newline>'')) (acc @ body @ [''\<newline>''])"
    and "acc @ body \<noteq> []"
    and "hd (acc @ body) \<noteq> ''\<newline>''"
  shows "scan_readme False acc (body @ ''\<newline>'' # ''\<newline>'' # rest) = Inr (acc @ body)"
  using assms
proof (induction body arbitrary: acc)
  case Nil
  then have "last acc \<noteq> ''\<newline>''"
    by (auto simp: successively_append_iff)
  with Nil show ?case
    by simp
next
  case (Cons line body)
  have step: "scan_readme False acc ((line # body) @ ''\<newline>'' # ''\<newline>'' # rest)
        = scan_readme False (acc @ [line]) (body @ ''\<newline>'' # ''\<newline>'' # rest)"
  proof (cases "line = ''\<newline>''")
    case True
    with Cons.prems have "acc \<noteq> []" 
      by auto
    moreover from True Cons.prems \<open>acc \<noteq> []\<close> have "last acc \<noteq> ''\<newline>''"
      by (auto simp: successively_append_iff)
    ultimately show ?thesis
      using True by simp
  next
    case False
    then show ?thesis
      by simp
  qed
  have "scan_readme False (acc @ [line]) (body @ ''\<newline>'' # ''\<newline>'' # rest)
        = Inr ((acc @ [line]) @ body)"
  proof (rule Cons.IH)
    show "successively (\<lambda>a b. \<not> (a = ''\<newline>'' \<and> b = ''\<newline>'')) ((acc @ [line]) @ body @ [''\<newline>''])"
      using Cons.prems(1) by simp
    show "(acc @ [line]) @ body \<noteq> []"
      by simp
    show "hd ((acc @ [line]) @ body) \<noteq> ''\<newline>''"
      using Cons.prems(3) by (cases acc) auto
  qed
  with step show ?case
    by simp
qed

lemma update_last: "xs \<noteq> [] \<Longrightarrow> xs[length xs - Suc 0 := y] = butlast xs @ [y]"
  by (induction xs rule: rev_induct) (auto simp: list_update_append)

text \<open>
  Claim C3, as the code has it.  Every line up to and including the first blank line
  is skipped.  The lines after it are accumulated up to the first two consecutive
  blank lines, where the loop stops and drops the blank line it had kept.  The result
  is these lines joined, with the trailing whitespace of the last one removed.  So for
  the lines \<open>\n\<close>, \<open>Title\n\<close>, \<open>Summary\n\<close>, \<open>\n\<close>, \<open>\n\<close>, \<open>More text\n\<close> the result is \<open>Title\<close>,
  newline, \<open>Summary\<close>.
\<close>

theorem long_description_block:
  assumes "files fs README_FILE = Some content"
    and "readlines content = header @ ''\<newline>'' # body @ ''\<newline>'' # ''\<newline>'' # rest"
    and "''\<newline>'' \<notin> set header"
    and "body \<noteq> []"
    and "hd body \<noteq> ''\<newline>''"
    and "last body \<noteq> ''\<newline>''"
    and "successively (\<lambda>a b. \<not> (a = ''\<newline>'' \<and> b = ''\<newline>'')) body"
  shows "long_description fs = Inr (concat (butlast body) @ rstrip (last body))"
proof -
  have "successively (\<lambda>a b. \<not> (a = ''\<newline>'' \<and> b = ''\<newline>'')) ([] @ body @ [''\<newline>''])"
    using assms(4,6,7) by (simp add: successively_append_iff)
  then have "scan_readme False [] (body @ ''\<newline>'' # ''\<newline>'' # rest) = Inr ([] @ body)"
    using assms(4,5) by (intro scan_readme_body) simp_all
  then have "scan_readme True [] (readlines content) = Inr body"
    using assms(2,3) by (simp add: scan_readme_header)
  then show ?thesis
    using assms(1,4) by (simp add: long_description_def open_read_def update_last)
qed

theorem long_description_block_witness:
  "long_description (filesystem_of
      [(''README'', ''\<newline>Title\<newline>Summary\<newline>\<newline>\<newline>More text\<newline>'')])
   = Inr ''Title\<newline>Summary''
  \<and> long_description (filesystem_of
      [(''README'', ''Tinyarray\<newline>=========\<newline>\<newline>Small arrays.\<newline>\<newline>Fast. \<newline>\<newline>\<newline>License\<newline>'')])
   = Inr ''Small arrays.\<newline>\<newline>Fast.''"
proof -
  let ?c = "''\<newline>Title\<newline>Summary\<newline>\<newline>\<newline>More text\<newline>''"
  let ?d = "''Tinyarray\<newline>=========\<newline>\<newline>Small arrays.\<newline>\<newline>Fast. \<newline>\<newline>\<newline>License\<newline>''"
  have 1: "files (filesystem_of [(''README'', ?c)]) README_FILE = Some ?c"
    "readlines ?c = [] @ ''\<newline>'' # [''Title\<newline>'', ''Summary\<newline>''] @ ''\<newline>'' # ''\<newline>'' # [''More text\<newline>'']"
    by (simp_all add: example_defs)
  have 2: "files (filesystem_of [(''README'', ?d)]) README_FILE = Some ?d"
    "readlines ?d = [''Tinyarray\<newline>'', ''=========\<newline>''] @ ''\<newline>'' # [''Small arrays.\<newline>'', ''\<newline>'', ''Fast. \<newline>''] @ ''\<newline>'' # ''\<newline>'' # [''License\<newline>'']"
    by (simp_all add: example_defs)
  show ?thesis
    using long_description_block [OF 1] long_description_block [OF 2]
    by (simp add: rstrip_def isspace_def)
qed

text \<open>
  The specification's example has six lines and two leading blank lines.  The first
  blank line ends the skipping; at the second one nothing has been accumulated, so
  \<open>text[-1]\<close> raises \<open>IndexError\<close> inside the \<open>try\<close> block and the result is the empty
  string, not \<open>Title\<close>, newline, \<open>Summary\<close>.
\<close>

theorem long_description_spec_example:
  "readlines ''\<newline>\<newline>Title\<newline>Summary\<newline>\<newline>More text\<newline>''
     = [''\<newline>'', ''\<newline>'', ''Title\<newline>'', ''Summary\<newline>'', ''\<newline>'', ''More text\<newline>'']
   \<and> long_description (filesystem_of
      [(''README'', ''\<newline>\<newline>Title\<newline>Summary\<newline>\<newline>More text\<newline>'')])
     = Inr []"
  by (simp add: long_description_def example_defs)

text \<open>
  Claim C4.  \<open>long_description\<close> returns the empty string when the file cannot be
  opened, but it does raise: when the loop ends with nothing accumulated, \<open>text[-1]\<close>
  after the \<open>try\<close> block raises \<open>IndexError\<close>.  This happens for an empty file, for a
  file of one blank line, and for a file without any blank line.
\<close>

theorem long_description_raises:
  "long_description (filesystem_of []) = Inr []
   \<and> long_description (filesystem_of [(''README'', [])]) = Inl IndexError
   \<and> long_description (filesystem_of [(''README'', ''\<newline>'')]) = Inl IndexError
   \<and> long_description (filesystem_of [(''README'', ''Title\<newline>Summary\<newline>'')]) = Inl IndexError"
  by (simp add: long_description_def example_defs)

section \<open>make_release_tree\<close>

lemma make_release_tree_files:
  assumes "make_release_tree version base_dir fs = Inr fs'"
  shows "fs' = fs\<lparr>files := (files fs)(path_join base_dir SAVED_VERSION_FILE \<mapsto>
                 ''# This file has been generated by setup.py.\<newline>'' @ version @ ''\<newline>'')\<rparr>"
  using assms
  by (auto simp: make_release_tree_def Let_def os_remove_def open_write_def 
       split: sum.splits error.splits option.splits if_splits)


text \<open>
  Claim C5, as the code has it.  Every \<open>OSError\<close> of the deletion is tolerated, whatever
  its reason: it does not propagate, and the hook goes on to write the fresh marker
  to the file system as the failed deletion left it.  The result of the hook is the
  result of that write: the fresh marker is in place unless the write itself is
  refused.
\<close>

theorem deletion_oserror_tolerated:
  assumes "os_remove fs (path_join base_dir SAVED_VERSION_FILE) = Inl (OSError e)"
  shows "make_release_tree version base_dir fs
         = open_write fs (path_join base_dir SAVED_VERSION_FILE)
             (''# This file has been generated by setup.py.\<newline>'' @ version @ ''\<newline>'')
       \<and> (\<not> write_denied fs (path_join base_dir SAVED_VERSION_FILE) \<longrightarrow>
            make_release_tree version base_dir fs
            = Inr (fs\<lparr>files := (files fs)(path_join base_dir SAVED_VERSION_FILE \<mapsto>
                 ''# This file has been generated by setup.py.\<newline>'' @ version
                   @ ''\<newline>'')\<rparr>))"
  using assms by (simp add: make_release_tree_def open_write_def)

theorem deletion_oserror_tolerated_witness:
  "make_release_tree ''1.0'' ''tinyarray-1.0''
        \<lparr>files = map_of [(''tinyarray-1.0/version'', ''0.9\<newline>'')],
              remove_denied = (\<lambda>path. path = ''tinyarray-1.0/version''),
              write_denied = (\<lambda>_. False)\<rparr>
     = Inr \<lparr>files = map_of [(''tinyarray-1.0/version'',
                        ''# This file has been generated by setup.py.\<newline>1.0\<newline>'')],
              remove_denied = (\<lambda>path. path = ''tinyarray-1.0/version''),
              write_denied = (\<lambda>_. False)\<rparr>
   \<and> make_release_tree ''1.0'' ''tinyarray-1.0''
        \<lparr>files = map_of [],
              remove_denied = (\<lambda>_. False),
              write_denied = (\<lambda>path. path = ''tinyarray-1.0/version'')\<rparr>
     = Inl (OSError PermissionError)"
proof -
  let ?fs = "\<lparr>files = map_of [(''tinyarray-1.0/version'', ''0.9\<newline>'')],
              remove_denied = (\<lambda>path. path = ''tinyarray-1.0/version''),
              write_denied = (\<lambda>_. False)\<rparr>"
  let ?ro = "\<lparr>files = map_of [],
              remove_denied = (\<lambda>_. False),
              write_denied = (\<lambda>path. path = ''tinyarray-1.0/version'')\<rparr>"
  have r: "os_remove ?fs (path_join ''tinyarray-1.0'' SAVED_VERSION_FILE)
           = Inl (OSError PermissionError)"
    by (simp add: os_remove_def path_join_def SAVED_VERSION_FILE_def)
  have w: "\<not> write_denied ?fs (path_join ''tinyarray-1.0'' SAVED_VERSION_FILE)"
    by simp
  have m: "os_remove ?ro (path_join ''tinyarray-1.0'' SAVED_VERSION_FILE)
           = Inl (OSError FileNotFoundError)"
    by (simp add: os_remove_def path_join_def SAVED_VERSION_FILE_def)
  from deletion_oserror_tolerated [OF r, of "''1.0''"]
    deletion_oserror_tolerated [OF m, of "''1.0''"] w
  show ?thesis
    by (simp add: open_write_def path_join_def SAVED_VERSION_FILE_def fun_eq_iff)
qed

text \<open>
  The claim as written fails: a deletion refused with \<open>PermissionError\<close>, while the old
  marker file exists, does not propagate.  The hook returns normally and the old file
  is overwritten in place.
\<close>

theorem deletion_oserror_counterexample:
  "os_remove \<lparr>files = map_of [(''tinyarray-1.0/version'', ''0.9\<newline>'')],
              remove_denied = (\<lambda>path. path = ''tinyarray-1.0/version''),
              write_denied = (\<lambda>_. False)\<rparr> (path_join ''tinyarray-1.0'' SAVED_VERSION_FILE)
     = Inl (OSError PermissionError)
   \<and> make_release_tree ''1.0'' ''tinyarray-1.0''
        \<lparr>files = map_of [(''tinyarray-1.0/version'', ''0.9\<newline>'')],
              remove_denied = (\<lambda>path. path = ''tinyarray-1.0/version''),
              write_denied = (\<lambda>_. False)\<rparr>
     = Inr \<lparr>files = map_of [(''tinyarray-1.0/version'',
                        ''# This file has been generated by setup.py.\<newline>1.0\<newline>'')],
              remove_denied = (\<lambda>path. path = ''tinyarray-1.0/version''),
              write_denied = (\<lambda>_. False)\<rparr>"
  by (simp add: make_release_tree_def os_remove_def open_write_def path_join_def
      SAVED_VERSION_FILE_def Let_def fun_eq_iff)








text \<open>
  Claim C10, as the code has it.  For a version without line feed or carriage return,
  without leading or trailing whitespace, and not beginning with \<open>#\<close>, reading the
  marker file the hook has written, by the procedure that reads the version file,
  yields exactly that version.
\<close>

theorem marker_round_trip:
  assumes "CHR 0x0A \<notin> set v"
    and "CHR 0x0D \<notin> set v"
    and "strip v = v"
    and "\<not> startswith v ''#''"
    and "make_release_tree v base_dir fs = Inr fs'"
  shows "read_version_file fs' (path_join base_dir SAVED_VERSION_FILE) = Inr v"
proof -
  have "files fs' (path_join base_dir SAVED_VERSION_FILE)
        = Some (''# This file has been generated by setup.py.\<newline>'' @ v @ ''\<newline>'')"
    using make_release_tree_files [OF assms(5)] by simp
  moreover have "startswith (strip ''# This file has been generated by setup.py.\<newline>'') ''#''"
    by (simp add: strip_def lstrip_def rstrip_def isspace_def startswith_def)
  ultimately show ?thesis
    using assms(3,4) readlines_marker [OF assms(1,2)]
    by (simp add: read_version_file_def open_read_def strip_snoc_newline Let_def)
qed

theorem marker_round_trip_witness:
  "make_release_tree ''1.0.dev3+gabc1234.dirty'' ''tinyarray-1.0''
     (filesystem_of [(''tinyarray-1.0/version'', ''__use_git__\<newline>'')])
   = Inr (filesystem_of [(''tinyarray-1.0/version'',
       ''# This file has been generated by setup.py.\<newline>1.0.dev3+gabc1234.dirty\<newline>'')])
   \<and> read_version_file
     (filesystem_of [(''tinyarray-1.0/version'',
         ''# This file has been generated by setup.py.\<newline>1.0.dev3+gabc1234.dirty\<newline>'')])
     (path_join ''tinyarray-1.0'' SAVED_VERSION_FILE) = Inr ''1.0.dev3+gabc1234.dirty''"
proof -
  have m: "make_release_tree ''1.0.dev3+gabc1234.dirty'' ''tinyarray-1.0''
          (filesystem_of [(''tinyarray-1.0/version'', ''__use_git__\<newline>'')])
        = Inr (filesystem_of [(''tinyarray-1.0/version'',
         ''# This file has been generated by setup.py.\<newline>1.0.dev3+gabc1234.dirty\<newline>'')])"
    by (simp add: make_release_tree_def os_remove_def open_write_def path_join_def
      SAVED_VERSION_FILE_def Let_def fun_eq_iff filesystem_of_def)
  have v: "CHR 0x0A \<notin> set ''1.0.dev3+gabc1234.dirty''"
    "CHR 0x0D \<notin> set ''1.0.dev3+gabc1234.dirty''"
    "strip ''1.0.dev3+gabc1234.dirty'' = ''1.0.dev3+gabc1234.dirty''"
    "\<not> startswith ''1.0.dev3+gabc1234.dirty'' ''#''"
    by (simp_all add: strip_def lstrip_def rstrip_def isspace_def startswith_def)
  from marker_round_trip [OF v m] m show ?thesis
    by simp
qed

text \<open>
  The conditions of the claim as written do not suffice.  For a tag \<open>1.0\<close> followed by a
  no-break space, at distance \<open>0\<close> on a clean tree, the resolved version is \<open>1.0\<close>
  followed by the no-break space: it is not empty, has no newline, is not only
  whitespace and does not begin with \<open>#\<close>.  The hook writes it, and it is read back as
  \<open>1.0\<close>, since the reader strips each line.
\<close>

theorem marker_round_trip_counterexample:
  "fst (resolve_version (filesystem_of [(''version'', ''__use_git__\<newline>'')])
         (environment_of
            [(git_rev_parse, exited 0 ''/src\<newline>''),
             (git_describe_first_parent, exited 0 (''1.0'' @ [CHR 0xA0] @ ''-0-gabc1234\<newline>'')),
             (git_diff, exited 0 [])] ''/src''))
     = Inr (''1.0'' @ [CHR 0xA0])
   \<and> ''1.0'' @ [CHR 0xA0] \<noteq> []
   \<and> CHR 0x0A \<notin> set (''1.0'' @ [CHR 0xA0])
   \<and> strip (''1.0'' @ [CHR 0xA0]) \<noteq> []
   \<and> \<not> startswith (''1.0'' @ [CHR 0xA0]) ''#''
   \<and> make_release_tree (''1.0'' @ [CHR 0xA0]) ''tinyarray-1.0'' (filesystem_of [])
       = Inr (filesystem_of [(''tinyarray-1.0/version'',
                ''# This file has been generated by setup.py.\<newline>1.0'' @ [CHR 0xA0]
                  @ ''\<newline>'')])
   \<and> read_version_file (filesystem_of [(''tinyarray-1.0/version'',
                ''# This file has been generated by setup.py.\<newline>1.0'' @ [CHR 0xA0]
                  @ ''\<newline>'')])
         (path_join ''tinyarray-1.0'' SAVED_VERSION_FILE) = Inr ''1.0''
   \<and> ''1.0'' \<noteq> ''1.0'' @ [CHR 0xA0]"
  by (simp add: resolve_version_def get_version_from_git_def version_of_describe_def
      unpack3_def Popen_def rpartition_def numeral_2_eq_2
      make_release_tree_def os_remove_def open_write_def path_join_def
      Let_def fun_eq_iff example_defs)

end
